theory Spec2Isabelle
  imports Complex_Main
begin

section \<open>The PERT distribution of pert.py\<close>

subsection \<open>Tensors, references and tensor arithmetic\<close>

text \<open>
  One batch element of a tensor is modelled in exact arithmetic: \<open>Some r\<close> is the
  number \<open>r\<close>, and \<open>None\<close> is a value that is not a number of the model (the
  infinity or not-a-number that a division by zero or the square root of a negative
  number produces). The rounding of a floating-point dtype is outside the model.
  Tensor operations are element-wise, so one element describes every batch element.
\<close>

type_synonym tensor = "real option"

fun tf_add :: "tensor \<Rightarrow> tensor \<Rightarrow> tensor" where
  "tf_add (Some a) (Some b) = Some (a + b)"
| "tf_add _ _ = None"

fun tf_subtract :: "tensor \<Rightarrow> tensor \<Rightarrow> tensor" where
  "tf_subtract (Some a) (Some b) = Some (a - b)"
| "tf_subtract _ _ = None"

fun tf_multiply :: "tensor \<Rightarrow> tensor \<Rightarrow> tensor" where
  "tf_multiply (Some a) (Some b) = Some (a * b)"
| "tf_multiply _ _ = None"

text \<open>Division does not raise: a zero divisor gives a value that is not a number.\<close>

fun tf_truediv :: "tensor \<Rightarrow> tensor \<Rightarrow> tensor" where
  "tf_truediv (Some a) (Some b) = (if b = 0 then None else Some (a / b))"
| "tf_truediv _ _ = None"

fun tf_sqrt :: "tensor \<Rightarrow> tensor" where
  "tf_sqrt (Some a) = (if a < 0 then None else Some (sqrt a))"
| "tf_sqrt None = None"

text \<open>
  A constructor argument is either a fixed value, or a mutable reference (a variable)
  whose current value lives in the store. \<open>tensor_util.is_ref\<close> tells them apart and
  \<open>tensor_util.convert_nonref_to_tensor\<close> leaves a reference as it is and turns any
  other value into a tensor of the common dtype (the same number, in exact arithmetic).
\<close>

datatype param = Tensor real | Variable nat

type_synonym store = "nat \<Rightarrow> real"

fun is_ref :: "param \<Rightarrow> bool" where
  "is_ref (Tensor r) = False"
| "is_ref (Variable a) = True"

fun convert_nonref_to_tensor :: "param \<Rightarrow> param" where
  "convert_nonref_to_tensor (Variable a) = Variable a"
| "convert_nonref_to_tensor (Tensor r) = Tensor r"

text \<open>
  The current value of a parameter, and the tensor that reading it inside an arithmetic
  expression gives.
\<close>

fun current :: "store \<Rightarrow> param \<Rightarrow> real" where
  "current s (Tensor r) = r"
| "current s (Variable a) = s a"

definition read :: "store \<Rightarrow> param \<Rightarrow> tensor" where
  "read s p = Some (current s p)"

subsection \<open>Python values, errors and the class namespace\<close>

type_synonym kwargs = "(string \<times> real) list"

datatype pyval = PyStr string | PyDict kwargs

datatype error = AttributeError string | ValueError string

text \<open>
  The names bound in the body of \<open>class PERT\<close>, in source order. Attribute lookup on an
  instance finds these (and whatever the base class defines).
\<close>

definition PERT_namespace :: "string list" where
  "PERT_namespace =
     [''__init__'', ''_batch_shape_tensor'', ''_parameter_control_dependencies'',
      ''_survivial_function'', ''_variance'', ''_stddev'', ''_mode'',
      ''minimum'', ''maximum'', ''smoothness'', ''loc'', ''scale'',
      ''concentration0'', ''concentration1'']"

definition PERT_defines :: "string \<Rightarrow> bool" where
  "PERT_defines attr = (attr \<in> set PERT_namespace)"

subsection \<open>The object and its construction\<close>

record Beta =
  Beta_concentration1 :: tensor
  Beta_concentration0 :: tensor
  Beta_allow_nan_stats :: bool

record AffineScalar =
  shift :: param
  scale :: tensor

record PERT =
  self_min :: param
  self_mod :: param
  self_max :: param
  self_smoothness :: param
  self_concentration1 :: tensor
  self_concentration0 :: tensor
  self_scale :: tensor
  distribution :: Beta
  bijector :: AffineScalar
  validate_args :: bool
  name :: string

text \<open>
  \<open>PERT.__init__\<close> (lines 80 to 123). Line 93 is the expression statement
  \<open>self._mode\<close>: an attribute lookup whose value is dropped, and which raises
  AttributeError when nothing binds the name. The derived quantities are computed here,
  from the values the parameters have at that moment, and stored.
  \<open>tf.broadcast_to\<close> changes the shape of \<open>scale\<close> only, not its elements.
\<close>

definition PERT_init ::
  "store \<Rightarrow> param \<Rightarrow> param \<Rightarrow> param \<Rightarrow> param \<Rightarrow> bool \<Rightarrow> bool \<Rightarrow> string \<Rightarrow> error + PERT" where
  "PERT_init s mini mode maxi smoothness validate allow_nan nm =
     (let smin = convert_nonref_to_tensor mini in
      if \<not> PERT_defines ''_mode'' then Inl (AttributeError ''_mode'')
      else
        let smod = convert_nonref_to_tensor mode;
            smax = convert_nonref_to_tensor maxi;
            ssmoothness = convert_nonref_to_tensor smoothness;
            c1 = tf_add (Some 1)
                   (tf_truediv
                      (tf_multiply (read s ssmoothness) (tf_subtract (read s smod) (read s smin)))
                      (tf_subtract (read s smax) (read s smin)));
            c0 = tf_add (Some 1)
                   (tf_truediv
                      (tf_multiply (read s ssmoothness) (tf_subtract (read s smax) (read s smod)))
                      (tf_subtract (read s smax) (read s smin)));
            sscale = tf_subtract (read s smax) (read s smin)
        in Inr \<lparr> self_min = smin, self_mod = smod, self_max = smax,
                 self_smoothness = ssmoothness,
                 self_concentration1 = c1, self_concentration0 = c0,
                 self_scale = sscale,
                 distribution = \<lparr> Beta_concentration1 = c1, Beta_concentration0 = c0,
                                   Beta_allow_nan_stats = allow_nan \<rparr>,
                 bijector = \<lparr> shift = smin, scale = sscale \<rparr>,
                 validate_args = validate, name = nm \<rparr>)"


definition PERT_maximum :: "PERT \<Rightarrow> param" where
  "PERT_maximum self = self_max self"

definition PERT_smoothness :: "PERT \<Rightarrow> param" where
  "PERT_smoothness self = self_smoothness self"

definition PERT_loc :: "PERT \<Rightarrow> param" where
  "PERT_loc self = self_min self"

definition PERT_scale :: "PERT \<Rightarrow> tensor" where
  "PERT_scale self = self_scale self"

definition PERT_concentration0 :: "PERT \<Rightarrow> tensor" where
  "PERT_concentration0 self = self_concentration0 self"

definition PERT_concentration1 :: "PERT \<Rightarrow> tensor" where
  "PERT_concentration1 self = self_concentration1 self"

subsection \<open>Validation\<close>

text \<open>
  \<open>assert_util.assert_greater\<close> and \<open>assert_util.assert_positive\<close> build an assertion:
  a check of the current parameter values that carries a message. The assertions are
  collected in a list and returned, to be attached as control dependencies; an assertion
  that does not hold fails with InvalidArgument and its message.
\<close>

datatype assertion = assert_greater param param string | assert_positive param string




text \<open>
  \<open>PERT._parameter_control_dependencies\<close> (lines 132 to 154). It is called with
  \<open>is_init = True\<close> at construction and with \<open>is_init = False\<close> on every later
  access.
\<close>

definition PERT_parameter_control_dependencies :: "PERT \<Rightarrow> bool \<Rightarrow> assertion list" where
  "PERT_parameter_control_dependencies self is_init =
     (if \<not> validate_args self then []
      else
        (if is_init \<noteq> is_ref (self_mod self) then
           (if is_init \<noteq> is_ref (self_min self)
            then [assert_greater (self_mod self) (self_min self)
                    ''Mode must be greater than minimum.'']
            else []) @
           (if is_init \<noteq> is_ref (self_max self)
            then [assert_greater (self_max self) (self_mod self)
                    ''Maximum must be greater than mode.'']
            else [])
         else []) @
        (if is_init \<noteq> is_ref (self_smoothness self)
         then [assert_positive (self_smoothness self)
                 ''Smoothness parameter must be positive.'']
         else []))"

subsection \<open>The query surface\<close>

text \<open>
  The generic composition (the affine transform applied to the Beta distribution) is
  not part of the sources; what it computes is a parameter of the model.
\<close>

record framework =
  generic_mean :: "store \<Rightarrow> PERT \<Rightarrow> tensor"
  generic_cdf :: "store \<Rightarrow> PERT \<Rightarrow> real \<Rightarrow> tensor"
  generic_survival_function :: "store \<Rightarrow> PERT \<Rightarrow> real \<Rightarrow> tensor"
  generic_variance :: "store \<Rightarrow> PERT \<Rightarrow> tensor"
  generic_stddev :: "store \<Rightarrow> PERT \<Rightarrow> tensor"
  generic_mode :: "store \<Rightarrow> PERT \<Rightarrow> param"

text \<open>
  \<open>tf.name_scope\<close> of TensorFlow (imported at line 7 in its version 2 interface): the
  name of a scope must be a string, and any other value raises ValueError.
\<close>

fun name_scope :: "pyval \<Rightarrow> error + unit" where
  "name_scope (PyStr n) = Inr ()"
| "name_scope (PyDict kw) = Inl (ValueError ''name for name_scope must be a string.'')"

text \<open>
  Modelled from the spec: the query surface inherited from the base class
  \<open>Distribution\<close>, which is not among the sources. A public accessor
  \<open>X(..., name, **kwargs)\<close> takes the scope name as its last positional parameter,
  enters that scope and evaluates the method \<open>_X(..., **kwargs)\<close> of the class when the
  class binds that name, and the generic composition's \<open>X\<close> otherwise.
  The class binds neither \<open>_mean\<close> nor \<open>_cdf\<close>. The assertions attached on an access
  are those of \<open>PERT_parameter_control_dependencies\<close> with \<open>is_init = False\<close>; the
  definitions below give the value an access computes.
\<close>

definition Distribution_mean ::
  "framework \<Rightarrow> store \<Rightarrow> PERT \<Rightarrow> pyval \<Rightarrow> kwargs \<Rightarrow> error + tensor" where
  "Distribution_mean fw s self nm kw =
     (case name_scope nm of Inl e \<Rightarrow> Inl e | Inr _ \<Rightarrow> Inr (generic_mean fw s self))"




text \<open>\<open>PERT._variance\<close> (lines 159 to 161).\<close>

definition PERT_variance ::
  "framework \<Rightarrow> store \<Rightarrow> PERT \<Rightarrow> kwargs \<Rightarrow> error + tensor" where
  "PERT_variance fw s self kw =
     (case Distribution_mean fw s self (PyStr ''mean'') [] of
        Inl e \<Rightarrow> Inl e
      | Inr mean \<Rightarrow>
          Inr (tf_truediv
                 (tf_multiply (tf_subtract mean (read s (self_min self)))
                              (tf_subtract (read s (self_max self)) mean))
                 (tf_add (read s (self_smoothness self)) (Some 3))))"

definition Distribution_variance ::
  "framework \<Rightarrow> store \<Rightarrow> PERT \<Rightarrow> pyval \<Rightarrow> kwargs \<Rightarrow> error + tensor" where
  "Distribution_variance fw s self nm kw =
     (case name_scope nm of
        Inl e \<Rightarrow> Inl e
      | Inr _ \<Rightarrow>
          if PERT_defines ''_variance'' then PERT_variance fw s self kw
          else Inr (generic_variance fw s self))"

text \<open>
  \<open>PERT._stddev\<close> (lines 163 and 164): \<open>tf.sqrt(self.variance(kwargs))\<close>.
  The dictionary \<open>kwargs\<close> is passed as the first positional argument of \<open>variance\<close>.
\<close>

definition PERT_stddev ::
  "framework \<Rightarrow> store \<Rightarrow> PERT \<Rightarrow> kwargs \<Rightarrow> error + tensor" where
  "PERT_stddev fw s self kw =
     (case Distribution_variance fw s self (PyDict kw) [] of
        Inl e \<Rightarrow> Inl e
      | Inr v \<Rightarrow> Inr (tf_sqrt v))"

definition Distribution_stddev ::
  "framework \<Rightarrow> store \<Rightarrow> PERT \<Rightarrow> pyval \<Rightarrow> kwargs \<Rightarrow> error + tensor" where
  "Distribution_stddev fw s self nm kw =
     (case name_scope nm of
        Inl e \<Rightarrow> Inl e
      | Inr _ \<Rightarrow>
          if PERT_defines ''_stddev'' then PERT_stddev fw s self kw
          else Inr (generic_stddev fw s self))"



subsection \<open>Example inputs\<close>

definition store0 :: store where
  "store0 = (\<lambda>a. 0)"

text \<open>
  The object that \<open>PERT(1., mode, 11., 4., validate_args=True)\<close> builds when \<open>mode\<close> is
  the variable at address 0, whose value in \<open>store0\<close> is 0.
\<close>

definition example_mode_variable :: PERT where
  "example_mode_variable =
     \<lparr> self_min = Tensor 1, self_mod = Variable 0, self_max = Tensor 11,
       self_smoothness = Tensor 4,
       self_concentration1 = Some (3 / 5), self_concentration0 = Some (27 / 5),
       self_scale = Some 10,
       distribution = \<lparr> Beta_concentration1 = Some (3 / 5), Beta_concentration0 = Some (27 / 5),
                         Beta_allow_nan_stats = False \<rparr>,
       bijector = \<lparr> shift = Tensor 1, scale = Some 10 \<rparr>,
       validate_args = True, name = ''PERT'' \<rparr>"

section \<open>Properties\<close>

lemma PERT_defines_mode: "PERT_defines ''_mode''"
  by (simp add: PERT_defines_def PERT_namespace_def)

lemma convert_nonref_to_tensor_id: "convert_nonref_to_tensor p = p"
  by (cases p) simp_all

lemma concentration_formula:
  "tf_add (Some 1)
     (tf_truediv (tf_multiply (read s g) (tf_subtract (read s a) (read s b)))
                 (tf_subtract (read s hi) (read s lo))) =
   (if current s hi = current s lo then None
    else Some (1 + current s g * (current s a - current s b) / (current s hi - current s lo)))"
  by (simp add: read_def)

lemma PERT_init_succeeds:
  "\<exists>self. PERT_init s mini mode maxi smoothness va an nm = Inr self
     \<and> self_min self = mini \<and> self_mod self = mode \<and> self_max self = maxi
     \<and> self_smoothness self = smoothness \<and> validate_args self = va
     \<and> self_concentration1 self =
         (if current s maxi = current s mini then None
          else Some (1 + current s smoothness * (current s mode - current s mini)
                           / (current s maxi - current s mini)))
     \<and> self_concentration0 self =
         (if current s maxi = current s mini then None
          else Some (1 + current s smoothness * (current s maxi - current s mode)
                           / (current s maxi - current s mini)))
     \<and> self_scale self = Some (current s maxi - current s mini)"
  by (simp add: PERT_init_def PERT_defines_mode convert_nonref_to_tensor_id Let_def
      concentration_formula)
    (simp add: read_def)

subsection \<open>Construction\<close>


text \<open>
  C9. With minimum 1, mode 7, maximum 11 and smoothness 4, construction gives
  concentration1 = 3.4, concentration0 = 2.6, scale = 10 and loc = 1.
\<close>

theorem PERT_standard_case:
  "\<exists>self. PERT_init s (Tensor 1) (Tensor 7) (Tensor 11) (Tensor 4) va an nm = Inr self
     \<and> PERT_concentration1 self = Some 3.4
     \<and> PERT_concentration0 self = Some 2.6
     \<and> PERT_scale self = Some 10
     \<and> PERT_loc self = Tensor 1"
  using PERT_init_succeeds [of s "Tensor 1" "Tensor 7" "Tensor 11" "Tensor 4" va an nm]
  by (auto simp: PERT_concentration1_def PERT_concentration0_def PERT_scale_def
      PERT_loc_def)





subsection \<open>Validation\<close>

text \<open>
  C2, as amended. With validation enabled, the assertion that mode is greater than
  minimum is among the returned assertions exactly when both the mode and the minimum
  pass the gate \<open>is_init \<noteq> is_ref\<close>: at construction when both are fixed values, on a
  later access when both are mutable references. The assertion that maximum is greater
  than mode is gated the same way by mode and maximum. The gating is a conjunction.
\<close>

theorem PERT_ordering_checks_gating:
  "(assert_greater (self_mod self) (self_min self) ''Mode must be greater than minimum.''
      \<in> set (PERT_parameter_control_dependencies self is_init))
     = (validate_args self \<and> is_init \<noteq> is_ref (self_mod self)
          \<and> is_init \<noteq> is_ref (self_min self))
   \<and> (assert_greater (self_max self) (self_mod self) ''Maximum must be greater than mode.''
      \<in> set (PERT_parameter_control_dependencies self is_init))
     = (validate_args self \<and> is_init \<noteq> is_ref (self_mod self)
          \<and> is_init \<noteq> is_ref (self_max self))"
  by (simp add: PERT_parameter_control_dependencies_def)

text \<open>
  The claim as stated fails: validation is enabled, the mode is a mutable reference and
  the minimum is a fixed value, the mode (0) is not greater than the minimum (1), and the
  check of mode against minimum is made neither at construction nor on a later access.
\<close>

theorem PERT_ordering_checks_gating_counterexample:
  "PERT_init store0 (Tensor 1) (Variable 0) (Tensor 11) (Tensor 4) True False ''PERT''
     = Inr example_mode_variable
   \<and> validate_args example_mode_variable
   \<and> is_ref (self_mod example_mode_variable)
   \<and> \<not> is_ref (self_min example_mode_variable)
   \<and> \<not> current store0 (self_min example_mode_variable)
         < current store0 (self_mod example_mode_variable)
   \<and> PERT_parameter_control_dependencies example_mode_variable True
       = [assert_positive (Tensor 4) ''Smoothness parameter must be positive.'']
   \<and> PERT_parameter_control_dependencies example_mode_variable False = []"
proof -
  have init: "PERT_init store0 (Tensor 1) (Variable 0) (Tensor 11) (Tensor 4) True False ''PERT''
     = Inr example_mode_variable"
    by (simp add: PERT_init_def PERT_defines_mode Let_def read_def store0_def
        example_mode_variable_def)
  have rest: "validate_args example_mode_variable
   \<and> is_ref (self_mod example_mode_variable)
   \<and> \<not> is_ref (self_min example_mode_variable)
   \<and> \<not> current store0 (self_min example_mode_variable)
         < current store0 (self_mod example_mode_variable)
   \<and> PERT_parameter_control_dependencies example_mode_variable True
       = [assert_positive (Tensor 4) ''Smoothness parameter must be positive.'']
   \<and> PERT_parameter_control_dependencies example_mode_variable False = []"
    by (simp add: PERT_parameter_control_dependencies_def example_mode_variable_def store0_def)
  from init rest show ?thesis by blast
qed



subsection \<open>The analytic overrides\<close>

lemma PERT_defines_variance: "PERT_defines ''_variance''"
  by (simp add: PERT_defines_def PERT_namespace_def)

lemma PERT_defines_stddev: "PERT_defines ''_stddev''"
  by (simp add: PERT_defines_def PERT_namespace_def)



text \<open>
  C5. \<open>_stddev\<close> passes its keyword dictionary as the scope name of \<open>variance\<close>, so
  the accessor \<open>stddev\<close> fails for every object instead of returning the square root of
  the variance.
\<close>

theorem PERT_stddev_fails:
  "Distribution_stddev fw s self (PyStr n) kw
     = Inl (ValueError ''name for name_scope must be a string.'')"
  by (simp add: Distribution_stddev_def PERT_defines_stddev PERT_stddev_def
      Distribution_variance_def)

text \<open>
  C6. The accessor \<open>variance\<close> returns (m - minimum) * (maximum - m) / (smoothness + 3),
  where m is what the accessor \<open>mean\<close> of the composed distribution returns (the
  quotient is not a number where smoothness + 3 is zero or m is not a number).
\<close>

theorem PERT_variance_formula:
  "Distribution_mean fw s self (PyStr ''mean'') [] = Inr (generic_mean fw s self)
   \<and> Distribution_variance fw s self (PyStr n) kw =
       Inr (case generic_mean fw s self of
              None \<Rightarrow> None
            | Some m \<Rightarrow>
                if current s (self_smoothness self) + 3 = 0 then None
                else Some ((m - current s (self_min self)) * (current s (self_max self) - m)
                             / (current s (self_smoothness self) + 3)))"
  by (cases "generic_mean fw s self")
    (simp_all add: Distribution_mean_def Distribution_variance_def PERT_defines_variance
      PERT_variance_def read_def)


end
